theory Spec2Isabelle
  imports Complex_Main "HOL-Library.AList" "HOL-Library.Char_ord" "HOL-Library.List_Lexorder"
begin

section \<open>The in-memory cache of \<^verbatim>\<open>src/utils/cache.py\<close>\<close>

text \<open>
  \<^verbatim>\<open>SimpleCache\<close> keeps a Python dict from keys to entry dicts and four counters.
  A Python dict iterates in insertion order, and \<^verbatim>\<open>min\<close> over its keys returns the first
  minimal key of that order, so the dict is an association list: \<open>map_of\<close> looks a key up,
  \<open>AList.update\<close> overwrites in place or appends a new key at the end, \<open>AList.delete\<close>
  removes a key. A dict has no duplicate keys: \<open>distinct (map fst (cache c))\<close>.

  \<^verbatim>\<open>time.time()\<close> is the parameter \<open>now\<close> of each operation, a real number (the rounding
  of the floating-point clock is not modelled). The counters start at 0 and are only
  ever incremented, so they are natural numbers.
\<close>

record 'v entry =
  e_value :: 'v
  expires :: real
  created :: real
  last_accessed :: real
  access_count :: nat

record 'v simple_cache =
  cache :: "(string \<times> 'v entry) list"
  default_ttl :: int
  max_size :: int
  hits :: nat
  misses :: nat
  sets :: nat
  deletes :: nat

text \<open>\<^verbatim>\<open>SimpleCache.__init__\<close>\<close>

definition SimpleCache_init :: "int \<Rightarrow> int \<Rightarrow> 'v simple_cache" where
  "SimpleCache_init dttl msize =
     \<lparr>cache = [], default_ttl = dttl, max_size = msize,
      hits = 0, misses = 0, sets = 0, deletes = 0\<rparr>"

text \<open>
  \<^verbatim>\<open>SimpleCache.get\<close>: the result \<open>None\<close> is Python's \<^verbatim>\<open>None\<close>, \<open>Some v\<close> a stored value.
  The hit branch writes \<^verbatim>\<open>last_accessed\<close> only; \<^verbatim>\<open>access_count\<close> is not touched.
\<close>

definition SimpleCache_get ::
  "'v simple_cache \<Rightarrow> string \<Rightarrow> real \<Rightarrow> 'v option \<times> 'v simple_cache" where
  "SimpleCache_get c key now =
     (case map_of (cache c) key of
        Some entry \<Rightarrow>
          if now < expires entry
          then (Some (e_value entry),
                c\<lparr>hits := hits c + 1,
                  cache := AList.update key (entry\<lparr>last_accessed := now\<rparr>) (cache c)\<rparr>)
          else (None,
                c\<lparr>cache := AList.delete key (cache c),
                  deletes := deletes c + 1,
                  misses := misses c + 1\<rparr>)
      | None \<Rightarrow> (None, c\<lparr>misses := misses c + 1\<rparr>))"

text \<open>
  \<^verbatim>\<open>min(self._cache.keys(), key=lambda k: self._cache[k]['last_accessed'])\<close>: the candidate
  is replaced only by a strictly smaller one, so the first minimal key wins.
\<close>

primrec oldest :: "string \<times> 'v entry \<Rightarrow> (string \<times> 'v entry) list \<Rightarrow> string \<times> 'v entry" where
  "oldest m [] = m"
| "oldest m (x # xs) =
     oldest (if last_accessed (snd x) < last_accessed (snd m) then x else m) xs"

text \<open>\<^verbatim>\<open>SimpleCache._evict_oldest\<close>: returns at once on an empty dict.\<close>

definition SimpleCache_evict_oldest :: "'v simple_cache \<Rightarrow> 'v simple_cache" where
  "SimpleCache_evict_oldest c =
     (case cache c of
        [] \<Rightarrow> c
      | x # xs \<Rightarrow>
          (let oldest_key = fst (oldest x xs)
           in c\<lparr>cache := AList.delete oldest_key (cache c), deletes := deletes c + 1\<rparr>))"

text \<open>\<^verbatim>\<open>SimpleCache.set\<close>; \<open>ttl = None\<close> is the default argument.\<close>

definition SimpleCache_set ::
  "'v simple_cache \<Rightarrow> string \<Rightarrow> 'v \<Rightarrow> int option \<Rightarrow> real \<Rightarrow> 'v simple_cache" where
  "SimpleCache_set c key v ttl now =
     (let ttl' = (case ttl of None \<Rightarrow> default_ttl c | Some t \<Rightarrow> t);
          c1 = (if max_size c \<le> int (length (cache c)) \<and> map_of (cache c) key = None
                then SimpleCache_evict_oldest c else c);
          current_time = now
      in c1\<lparr>cache :=
               AList.update key
                 \<lparr>e_value = v, expires = current_time + real_of_int ttl',
                  created = current_time, last_accessed = current_time, access_count = 0\<rparr>
                 (cache c1),
             sets := sets c1 + 1\<rparr>)"

text \<open>\<^verbatim>\<open>SimpleCache.delete\<close>\<close>

definition SimpleCache_delete :: "'v simple_cache \<Rightarrow> string \<Rightarrow> bool \<times> 'v simple_cache" where
  "SimpleCache_delete c key =
     (if map_of (cache c) key \<noteq> None
      then (True, c\<lparr>cache := AList.delete key (cache c), deletes := deletes c + 1\<rparr>)
      else (False, c))"

text \<open>\<^verbatim>\<open>SimpleCache.clear\<close>\<close>

definition SimpleCache_clear :: "'v simple_cache \<Rightarrow> 'v simple_cache" where
  "SimpleCache_clear c =
     (let cleared_count = length (cache c)
      in c\<lparr>cache := [], deletes := deletes c + cleared_count\<rparr>)"

text \<open>\<^verbatim>\<open>SimpleCache.cleanup\<close>\<close>

definition SimpleCache_cleanup :: "'v simple_cache \<Rightarrow> real \<Rightarrow> nat \<times> 'v simple_cache" where
  "SimpleCache_cleanup c now =
     (let current_time = now;
          expired_keys = map fst (filter (\<lambda>(key, entry). expires entry \<le> current_time) (cache c))
      in (length expired_keys,
          c\<lparr>cache := fold AList.delete expired_keys (cache c),
            deletes := deletes c + length expired_keys\<rparr>))"

text \<open>
  Exceptions of the Python runtime that the modelled code can meet. A function that can
  raise returns \<open>py_error + 'a\<close>, with \<open>Inl\<close> the exception.
\<close>

datatype py_error = ZeroDivisionError | OSError | ValueError

text \<open>Python's \<^verbatim>\<open>a / b\<close> on the counters: it raises on a zero divisor.\<close>

definition py_truediv :: "nat \<Rightarrow> nat \<Rightarrow> py_error + real" where
  "py_truediv a b = (if b = 0 then Inl ZeroDivisionError else Inr (real a / real b))"

text \<open>
  \<^verbatim>\<open>SimpleCache._estimate_memory_usage\<close> and \<^verbatim>\<open>SimpleCache.get_stats\<close>. The length of
  \<^verbatim>\<open>str(entry['value'])\<close> is the parameter \<open>str_len\<close>. The conditional expression
  \<^verbatim>\<open>hits / (hits + misses) if (hits + misses) > 0 else 0\<close> evaluates the quotient only
  when the condition holds; the quotient is the exact one, not its floating-point rounding.
\<close>

definition SimpleCache_estimate_memory_usage :: "('v \<Rightarrow> nat) \<Rightarrow> 'v simple_cache \<Rightarrow> nat" where
  "SimpleCache_estimate_memory_usage str_len c =
     sum_list (map (\<lambda>(key, entry). length key * 2 + str_len (e_value entry) * 2 + 64) (cache c))"

record stats =
  total_entries :: nat
  active_entries :: nat
  expired_entries :: nat
  s_max_size :: int
  s_hits :: nat
  s_misses :: nat
  s_sets :: nat
  s_deletes :: nat
  hit_rate :: real
  memory_usage_estimate :: nat

definition SimpleCache_get_stats ::
  "('v \<Rightarrow> nat) \<Rightarrow> 'v simple_cache \<Rightarrow> real \<Rightarrow> py_error + stats" where
  "SimpleCache_get_stats str_len c now =
     (let current_time = now;
          total = length (cache c);
          expired = length (filter (\<lambda>(key, entry). expires entry \<le> current_time) (cache c))
      in case (if 0 < hits c + misses c
               then py_truediv (hits c) (hits c + misses c) else Inr 0) of
           Inl err \<Rightarrow> Inl err
         | Inr rate \<Rightarrow>
             Inr \<lparr>total_entries = total, active_entries = total - expired,
                  expired_entries = expired, s_max_size = max_size c, s_hits = hits c,
                  s_misses = misses c, s_sets = sets c, s_deletes = deletes c,
                  hit_rate = rate,
                  memory_usage_estimate = SimpleCache_estimate_memory_usage str_len c\<rparr>)"

text \<open>A sequence of \<^verbatim>\<open>set\<close> calls, each with its key, value, ttl argument and clock reading.\<close>

fun run_sets ::
  "'v simple_cache \<Rightarrow> (string \<times> 'v \<times> int option \<times> real) list \<Rightarrow> 'v simple_cache" where
  "run_sets c [] = c"
| "run_sets c ((key, v, ttl, now) # ops) = run_sets (SimpleCache_set c key v ttl now) ops"

text \<open>A store with two live entries, at its capacity of two.\<close>

definition example_cache :: "nat simple_cache" where
  "example_cache =
     \<lparr>cache = [(''a'', \<lparr>e_value = 7, expires = 10, created = 0, last_accessed = 3, access_count = 0\<rparr>),
               (''b'', \<lparr>e_value = 8, expires = 20, created = 1, last_accessed = 1, access_count = 0\<rparr>)],
      default_ttl = 3600, max_size = 2, hits = 0, misses = 0, sets = 2, deletes = 0\<rparr>"

section \<open>The disk-backed cache of \<^verbatim>\<open>src/utils/cache.py\<close>\<close>

text \<open>
  \<^verbatim>\<open>PersistentCache\<close> keeps one file per entry in a directory. The directory is the list
  of its entries matching \<^verbatim>\<open>*.cache\<close>, in the order \<^verbatim>\<open>glob\<close> yields them. What matters of
  an entry is what reading it gives and whether it can be removed:
  \<^item> \<open>Unreadable\<close>: \<^verbatim>\<open>open\<close> or \<^verbatim>\<open>json.load\<close> raises (no permission, a directory of that
    name, text that is not JSON);
  \<^item> \<open>Malformed\<close>: the JSON loads, and \<^verbatim>\<open>cache_data['key']\<close>, \<^verbatim>\<open>cache_data['entry']\<close>,
    \<^verbatim>\<open>entry['expires']\<close>, the comparison with the clock or the dict store raises;
  \<^item> \<open>Stored key entry\<close>: a record as \<^verbatim>\<open>_save_to_disk\<close> writes it;
  \<^item> \<open>unlink_ok\<close>: whether \<^verbatim>\<open>cache_file.unlink()\<close> succeeds. \<^verbatim>\<open>Path.unlink\<close> raises an
    \<^verbatim>\<open>OSError\<close> when the entry cannot be removed (it is a directory, or the directory is
    not writable).
\<close>

datatype 'v file_content =
    Unreadable
  | Malformed
  | Stored string "'v entry"

record 'v cache_file =
  path :: string
  content :: "'v file_content"
  unlink_ok :: bool

text \<open>\<^verbatim>\<open>cache_file.unlink()\<close>\<close>

definition unlink :: "'v cache_file \<Rightarrow> 'v cache_file list \<Rightarrow> py_error + 'v cache_file list" where
  "unlink f disk =
     (if unlink_ok f then Inr (filter (\<lambda>g. path g \<noteq> path f) disk) else Inl OSError)"

text \<open>
  The body of the loop of \<^verbatim>\<open>_load_from_disk\<close>. An exception raised in the \<^verbatim>\<open>try\<close>
  block, that of the \<^verbatim>\<open>unlink\<close> of an expired record included, is caught by
  \<^verbatim>\<open>except Exception\<close>; the handler calls \<^verbatim>\<open>cache_file.unlink()\<close> itself, outside any
  \<^verbatim>\<open>try\<close>, so an exception of that call leaves the function.
\<close>

definition load_file ::
  "real \<Rightarrow> 'v cache_file \<Rightarrow> (string \<times> 'v entry) list \<times> 'v cache_file list \<Rightarrow>
     py_error + (string \<times> 'v entry) list \<times> 'v cache_file list" where
  "load_file current_time cache_file st =
     (let (cache, disk) = st;
          attempt =
            (case content cache_file of
               Stored key entry \<Rightarrow>
                 if current_time < expires entry
                 then Inr (AList.update key entry cache, disk)
                 else (case unlink cache_file disk of
                         Inl err \<Rightarrow> Inl err
                       | Inr disk' \<Rightarrow> Inr (cache, disk'))
             | Malformed \<Rightarrow> Inl ValueError
             | Unreadable \<Rightarrow> Inl OSError)
      in case attempt of
           Inr st' \<Rightarrow> Inr st'
         | Inl _ \<Rightarrow>
             (case unlink cache_file disk of
                Inl err \<Rightarrow> Inl err
              | Inr disk' \<Rightarrow> Inr (cache, disk')))"

fun load_files ::
  "real \<Rightarrow> 'v cache_file list \<Rightarrow> (string \<times> 'v entry) list \<times> 'v cache_file list \<Rightarrow>
     py_error + (string \<times> 'v entry) list \<times> 'v cache_file list" where
  "load_files current_time [] st = Inr st"
| "load_files current_time (cache_file # files) st =
     (case load_file current_time cache_file st of
        Inl err \<Rightarrow> Inl err
      | Inr st' \<Rightarrow> load_files current_time files st')"

text \<open>
  \<^verbatim>\<open>PersistentCache._load_from_disk\<close>: records are stored with \<^verbatim>\<open>self._cache[key] = entry\<close>,
  not through \<^verbatim>\<open>set\<close>, so no counter moves. The result is the store and the directory
  after the load, or the exception that left the function.
\<close>

definition PersistentCache_load_from_disk ::
  "'v simple_cache \<Rightarrow> 'v cache_file list \<Rightarrow> real \<Rightarrow>
     py_error + 'v simple_cache \<times> 'v cache_file list" where
  "PersistentCache_load_from_disk c disk now =
     (let current_time = now
      in case load_files current_time disk (cache c, disk) of
           Inl err \<Rightarrow> Inl err
         | Inr (cache', disk') \<Rightarrow> Inr (c\<lparr>cache := cache'\<rparr>, disk'))"

text \<open>
  \<^verbatim>\<open>PersistentCache.__init__\<close>, for a directory that exists (after
  \<^verbatim>\<open>mkdir(exist_ok=True)\<close> it does, and \<^verbatim>\<open>self.cache_dir.exists()\<close> holds).
\<close>

definition PersistentCache_init ::
  "'v cache_file list \<Rightarrow> int \<Rightarrow> int \<Rightarrow> real \<Rightarrow> py_error + 'v simple_cache \<times> 'v cache_file list" where
  "PersistentCache_init disk dttl msize now =
     PersistentCache_load_from_disk (SimpleCache_init dttl msize) disk now"

text \<open>A directory with a live record, an expired one, a malformed and an unreadable file.\<close>

definition live_entry :: "nat entry" where
  "live_entry = \<lparr>e_value = 1, expires = 100, created = 0, last_accessed = 0, access_count = 0\<rparr>"

definition expired_entry :: "nat entry" where
  "expired_entry = \<lparr>e_value = 2, expires = 10, created = 0, last_accessed = 0, access_count = 0\<rparr>"

definition example_disk :: "nat cache_file list" where
  "example_disk =
     [\<lparr>path = ''1.cache'', content = Stored ''a'' live_entry, unlink_ok = True\<rparr>,
      \<lparr>path = ''2.cache'', content = Stored ''b'' expired_entry, unlink_ok = True\<rparr>,
      \<lparr>path = ''3.cache'', content = Malformed, unlink_ok = True\<rparr>,
      \<lparr>path = ''4.cache'', content = Unreadable, unlink_ok = True\<rparr>]"

section \<open>Calendar dates\<close>

text \<open>
  The holiday queries parse dates with \<^verbatim>\<open>datetime.strptime(s, "%Y-%m-%d")\<close> and use
  \<^verbatim>\<open>weekday()\<close>, the comparison and the difference of dates. These are functions of
  Python's standard library; they are written out here as the library defines them
  (proleptic Gregorian calendar, day 1 is 0001-01-01, Monday is 0).
\<close>

record pdate =
  d_year :: int
  d_month :: int
  d_day :: int

definition is_leap :: "int \<Rightarrow> bool" where
  "is_leap y = (y mod 4 = 0 \<and> (y mod 100 \<noteq> 0 \<or> y mod 400 = 0))"

definition days_in_month :: "int \<Rightarrow> int \<Rightarrow> int" where
  "days_in_month y m =
     (if m = 2 then (if is_leap y then 29 else 28)
      else if m = 4 \<or> m = 6 \<or> m = 9 \<or> m = 11 then 30 else 31)"

definition days_before_year :: "int \<Rightarrow> int" where
  "days_before_year y = (y - 1) * 365 + (y - 1) div 4 - (y - 1) div 100 + (y - 1) div 400"

definition days_before_month :: "int \<Rightarrow> int \<Rightarrow> int" where
  "days_before_month y m = sum_list (map (days_in_month y) [1..m - 1])"

definition toordinal :: "pdate \<Rightarrow> int" where
  "toordinal d = days_before_year (d_year d) + days_before_month (d_year d) (d_month d) + d_day d"

definition weekday :: "pdate \<Rightarrow> int" where
  "weekday d = (toordinal d + 6) mod 7"

text \<open>\<^verbatim>\<open>a < b\<close> on dates compares year, month and day in that order.\<close>

definition date_less :: "pdate \<Rightarrow> pdate \<Rightarrow> bool" where
  "date_less a b =
     (d_year a < d_year b
      \<or> (d_year a = d_year b
          \<and> (d_month a < d_month b \<or> (d_month a = d_month b \<and> d_day a < d_day b))))"

text \<open>
  \<^verbatim>\<open>strptime\<close> matches the regular expression of the format against the text, then
  rejects text that is left over and field values that are no date. The directives are
  \<^verbatim>\<open>%Y\<close>: four digits; \<^verbatim>\<open>%m\<close>: \<^verbatim>\<open>1[0-2]|0[1-9]|[1-9]\<close>;
  \<^verbatim>\<open>%d\<close>: \<^verbatim>\<open>3[0-1]|[1-2]\d|0[1-9]|[1-9]| [1-9]\<close>. An alternative of \<^verbatim>\<open>%m\<close> is kept
  when the \<^verbatim>\<open>-\<close> follows it; \<^verbatim>\<open>%d\<close> ends the pattern, so its first matching
  alternative is taken. Digits are the ASCII digits. \<open>None\<close> is \<^verbatim>\<open>ValueError\<close>.
\<close>

definition is_digit :: "char \<Rightarrow> bool" where
  "is_digit c = (CHR ''0'' \<le> c \<and> c \<le> CHR ''9'')"

definition digit_val :: "char \<Rightarrow> int" where
  "digit_val c = int (of_char c) - 48"

definition number :: "string \<Rightarrow> int" where
  "number s = foldl (\<lambda>n c. 10 * n + digit_val c) 0 s"

definition match_Y :: "string \<Rightarrow> (int \<times> string) option" where
  "match_Y s =
     (if 4 \<le> length s \<and> list_all is_digit (take 4 s)
      then Some (number (take 4 s), drop 4 s) else None)"

definition match_m :: "string \<Rightarrow> (int \<times> string) list" where
  "match_m s =
     (case s of
        a # b # r \<Rightarrow>
          (if a = CHR ''1'' \<and> (b = CHR ''0'' \<or> b = CHR ''1'' \<or> b = CHR ''2'')
           then [(number [a, b], r)] else [])
          @ (if a = CHR ''0'' \<and> is_digit b \<and> b \<noteq> CHR ''0'' then [(number [a, b], r)] else [])
          @ (if is_digit a \<and> a \<noteq> CHR ''0'' then [(number [a], b # r)] else [])
      | [a] \<Rightarrow> (if is_digit a \<and> a \<noteq> CHR ''0'' then [(number [a], [])] else [])
      | [] \<Rightarrow> [])"

definition match_d :: "string \<Rightarrow> (int \<times> string) option" where
  "match_d s =
     (case s of
        a # b # r \<Rightarrow>
          if a = CHR ''3'' \<and> (b = CHR ''0'' \<or> b = CHR ''1'') then Some (number [a, b], r)
          else if (a = CHR ''1'' \<or> a = CHR ''2'') \<and> is_digit b then Some (number [a, b], r)
          else if a = CHR ''0'' \<and> is_digit b \<and> b \<noteq> CHR ''0'' then Some (number [a, b], r)
          else if is_digit a \<and> a \<noteq> CHR ''0'' then Some (number [a], b # r)
          else if a = CHR '' '' \<and> is_digit b \<and> b \<noteq> CHR ''0'' then Some (number [b], r)
          else None
      | [a] \<Rightarrow> if is_digit a \<and> a \<noteq> CHR ''0'' then Some (number [a], []) else None
      | [] \<Rightarrow> None)"

definition match_dash :: "string \<Rightarrow> string option" where
  "match_dash s = (case s of c # r \<Rightarrow> if c = CHR ''-'' then Some r else None | [] \<Rightarrow> None)"

definition strptime :: "string \<Rightarrow> pdate option" where
  "strptime s =
     (case match_Y s of
        None \<Rightarrow> None
      | Some (y, s1) \<Rightarrow>
          (case match_dash s1 of
             None \<Rightarrow> None
           | Some s2 \<Rightarrow>
               (case List.find (\<lambda>(m, s3). match_dash s3 \<noteq> None) (match_m s2) of
                  None \<Rightarrow> None
                | Some (m, s3) \<Rightarrow>
                    (case match_dash s3 of
                       None \<Rightarrow> None
                     | Some s4 \<Rightarrow>
                         (case match_d s4 of
                            None \<Rightarrow> None
                          | Some (d, s5) \<Rightarrow>
                              if s5 = [] \<and> 1 \<le> y \<and> d \<le> days_in_month y m
                              then Some \<lparr>d_year = y, d_month = m, d_day = d\<rparr>
                              else None)))))"



section \<open>The holiday feed and the results of the queries\<close>

definition weekdays_en :: "string list" where
  "weekdays_en = [''Monday'', ''Tuesday'', ''Wednesday'', ''Thursday'', ''Friday'',
                  ''Saturday'', ''Sunday'']"

definition weekday_name :: "pdate \<Rightarrow> string" where
  "weekday_name d = weekdays_en ! nat (weekday d)"




text \<open>
  One element of the feed's \<^verbatim>\<open>days\<close> array. The code reads \<^verbatim>\<open>isOffDay\<close>, \<^verbatim>\<open>name\<close> and
  \<^verbatim>\<open>note\<close> with \<^verbatim>\<open>.get\<close> and the defaults \<^verbatim>\<open>False\<close> and \<^verbatim>\<open>''\<close>; a missing key is the
  default value here. Every element has a \<^verbatim>\<open>date\<close> string. A year's document is
  represented by its \<^verbatim>\<open>days\<close> list (a JSON object with other keys only has the empty
  list).
\<close>

record day_record =
  day_date :: string
  day_isOffDay :: bool
  day_name :: string
  day_note :: string

type_synonym holiday_data = "day_record list"

text \<open>
  The two download locations. \<open>Some data\<close> is a response with status 200 whose body is a
  JSON document; \<open>None\<close> is any other status or an exception of the request. The loop
  over the two URLs returns the first success.
\<close>

record sources =
  primary :: "int \<Rightarrow> holiday_data option"
  backup :: "int \<Rightarrow> holiday_data option"

definition download :: "sources \<Rightarrow> int \<Rightarrow> holiday_data option" where
  "download src year =
     (case primary src year of
        Some data \<Rightarrow> Some data
      | None \<Rightarrow> backup src year)"

text \<open>
  The error results. Each query returns \<^verbatim>\<open>{"error": message}\<close> with one of these
  messages (in Chinese in the source):
  \<^item> \<open>NoHolidayData\<close>: "no holiday data" (\<^verbatim>\<open>get_holiday_info\<close> of the script);
  \<^item> \<open>CannotFetchData\<close>: "cannot obtain the holiday data" (a needed year has no data);
  \<^item> \<open>NoFutureHoliday\<close>: "no future holiday found" (\<^verbatim>\<open>get_next_holiday\<close> of the script);
  \<^item> \<open>NoNextHoliday\<close>: "no next holiday found" (\<^verbatim>\<open>next_holiday\<close> of the server);
  \<^item> \<open>BadDateFormat\<close>: "wrong date format, use YYYY-MM-DD";
  \<^item> \<open>QueryFailed\<close>: "query failed: ..." (the \<^verbatim>\<open>except Exception\<close> of each query).
\<close>

datatype query_error =
    NoHolidayData
  | CannotFetchData
  | NoFutureHoliday
  | NoNextHoliday
  | BadDateFormat
  | QueryFailed


record holiday_item =
  it_date :: string
  it_name :: string
  it_note :: string
  it_weekday_name_en :: "string option"

record year_holidays =
  yh_year :: int
  yh_holidays :: "holiday_item list"
  yh_total_count :: nat

record next_holiday_info =
  nh_name :: string
  nh_date :: string
  nh_days_until :: int
  nh_note :: string
  nh_weekday_name_en :: "string option"


section \<open>The queries of \<^verbatim>\<open>src/server_fastmcp.py\<close>\<close>

text \<open>
  \<^verbatim>\<open>fetch_holiday_data\<close>: the module's \<^verbatim>\<open>_holiday_cache\<close> dict is threaded through every
  query; an entry never expires.
\<close>

definition server_fetch_holiday_data ::
  "sources \<Rightarrow> (int \<rightharpoonup> holiday_data) \<Rightarrow> int \<Rightarrow> holiday_data option \<times> (int \<rightharpoonup> holiday_data)" where
  "server_fetch_holiday_data src hcache year =
     (case hcache year of
        Some data \<Rightarrow> (Some data, hcache)
      | None \<Rightarrow>
          (case download src year of
             Some data \<Rightarrow> (Some data, hcache(year \<mapsto> data))
           | None \<Rightarrow> (None, hcache)))"


text \<open>\<^verbatim>\<open>current_year_holidays\<close>; \<open>current_year\<close> is \<^verbatim>\<open>datetime.now().year\<close>.\<close>

definition server_holiday_item :: "day_record \<Rightarrow> holiday_item" where
  "server_holiday_item day =
     \<lparr>it_date = day_date day, it_name = day_name day, it_note = day_note day,
      it_weekday_name_en =
        Some (case strptime (day_date day) of
                Some date_obj \<Rightarrow> weekday_name date_obj
              | None \<Rightarrow> [])\<rparr>"

definition server_current_year_holidays ::
  "sources \<Rightarrow> (int \<rightharpoonup> holiday_data) \<Rightarrow> int \<Rightarrow>
     (query_error + year_holidays) \<times> (int \<rightharpoonup> holiday_data)" where
  "server_current_year_holidays src hcache current_year =
     (let (holiday_data, hcache') = server_fetch_holiday_data src hcache current_year
      in case holiday_data of
           None \<Rightarrow> (Inl CannotFetchData, hcache')
         | Some days \<Rightarrow>
             (let holidays = map server_holiday_item
                               (filter (\<lambda>day. day_isOffDay day \<and> day_name day \<noteq> []) days)
              in (Inr \<lparr>yh_year = current_year, yh_holidays = holidays,
                       yh_total_count = length holidays\<rparr>, hcache')))"

text \<open>
  \<^verbatim>\<open>next_holiday\<close>; \<open>today\<close> is \<^verbatim>\<open>datetime.now().date()\<close>. The first loop parses the date
  of each record it tests, and a \<^verbatim>\<open>ValueError\<close> there ends the query in its
  \<^verbatim>\<open>except Exception\<close>. The second loop, over the next year, tests no date.
\<close>

fun server_scan_current_year :: "pdate \<Rightarrow> day_record list \<Rightarrow> py_error + day_record option" where
  "server_scan_current_year today [] = Inr None"
| "server_scan_current_year today (day # days) =
     (if day_isOffDay day \<and> day_name day \<noteq> []
      then (case strptime (day_date day) of
              None \<Rightarrow> Inl ValueError
            | Some holiday_date \<Rightarrow>
                if date_less today holiday_date then Inr (Some day)
                else server_scan_current_year today days)
      else server_scan_current_year today days)"

definition server_next_holiday ::
  "sources \<Rightarrow> (int \<rightharpoonup> holiday_data) \<Rightarrow> pdate \<Rightarrow>
     (query_error + next_holiday_info) \<times> (int \<rightharpoonup> holiday_data)" where
  "server_next_holiday src hcache today =
     (let current_year = d_year today;
          (holiday_data, hcache1) = server_fetch_holiday_data src hcache current_year
      in case holiday_data of
           None \<Rightarrow> (Inl CannotFetchData, hcache1)
         | Some days \<Rightarrow>
             (case server_scan_current_year today days of
                Inl err \<Rightarrow> (Inl QueryFailed, hcache1)
              | Inr found \<Rightarrow>
                  (let (next_holiday_info, hcache2) =
                         (case found of
                            Some day \<Rightarrow> (Some day, hcache1)
                          | None \<Rightarrow>
                              (let (next_year_data, hcache2) =
                                     server_fetch_holiday_data src hcache1 (current_year + 1)
                               in (case next_year_data of
                                     Some days' \<Rightarrow>
                                       List.find (\<lambda>day. day_isOffDay day \<and> day_name day \<noteq> []) days'
                                   | None \<Rightarrow> None, hcache2)))
                   in case next_holiday_info of
                        None \<Rightarrow> (Inl NoNextHoliday, hcache2)
                      | Some day \<Rightarrow>
                          (case strptime (day_date day) of
                             None \<Rightarrow> (Inl QueryFailed, hcache2)
                           | Some holiday_date \<Rightarrow>
                               (Inr \<lparr>nh_name = day_name day, nh_date = day_date day,
                                     nh_days_until = toordinal holiday_date - toordinal today,
                                     nh_note = day_note day,
                                     nh_weekday_name_en = Some (weekday_name holiday_date)\<rparr>,
                                hcache2)))))"


section \<open>The queries of \<^verbatim>\<open>scripts/holiday_query.py\<close>\<close>

text \<open>
  \<^verbatim>\<open>fetch_holiday_data\<close>: the dicts \<^verbatim>\<open>holiday_cache\<close> and \<^verbatim>\<open>cache_expiry\<close>; a download is
  cached for 24 hours (86400 seconds) of the clock \<open>current_time\<close>.
\<close>

record hq_state =
  holiday_cache :: "int \<rightharpoonup> holiday_data"
  cache_expiry :: "int \<rightharpoonup> real"

definition hq_fetch_holiday_data ::
  "sources \<Rightarrow> hq_state \<Rightarrow> real \<Rightarrow> int \<Rightarrow> holiday_data option \<times> hq_state" where
  "hq_fetch_holiday_data src st current_time year =
     (case (holiday_cache st year, cache_expiry st year) of
        (Some data, Some expiry) \<Rightarrow>
          if current_time < expiry then (Some data, st)
          else (case download src year of
                  Some data' \<Rightarrow>
                    (Some data',
                     st\<lparr>holiday_cache := (holiday_cache st)(year \<mapsto> data'),
                        cache_expiry := (cache_expiry st)(year \<mapsto> current_time + 86400)\<rparr>)
                | None \<Rightarrow> (None, st))
      | _ \<Rightarrow>
          (case download src year of
             Some data' \<Rightarrow>
               (Some data',
                st\<lparr>holiday_cache := (holiday_cache st)(year \<mapsto> data'),
                   cache_expiry := (cache_expiry st)(year \<mapsto> current_time + 86400)\<rparr>)
           | None \<Rightarrow> (None, st)))"



text \<open>\<^verbatim>\<open>get_current_year_holidays\<close>; \<open>year\<close> is \<^verbatim>\<open>get_current_year()\<close>.\<close>

definition hq_holiday_item :: "day_record \<Rightarrow> holiday_item" where
  "hq_holiday_item day =
     \<lparr>it_date = day_date day, it_name = day_name day, it_note = day_note day,
      it_weekday_name_en = None\<rparr>"

definition hq_get_current_year_holidays ::
  "sources \<Rightarrow> hq_state \<Rightarrow> real \<Rightarrow> int \<Rightarrow> (query_error + year_holidays) \<times> hq_state" where
  "hq_get_current_year_holidays src st current_time year =
     (let (holiday_data, st') = hq_fetch_holiday_data src st current_time year
      in case holiday_data of
           None \<Rightarrow> (Inl CannotFetchData, st')
         | Some days \<Rightarrow>
             (let holidays = map hq_holiday_item (filter day_isOffDay days)
              in (Inr \<lparr>yh_year = year, yh_holidays = holidays,
                       yh_total_count = length holidays\<rparr>, st')))"

text \<open>
  The list \<^verbatim>\<open>all_holidays\<close> of \<^verbatim>\<open>get_next_holiday\<close>: the off days of the current
  year's data, then those of the next year's, each skipped when the data is missing.
\<close>

definition hq_all_holidays :: "holiday_data option \<Rightarrow> holiday_data option \<Rightarrow> day_record list" where
  "hq_all_holidays this_year next_year =
     (case this_year of Some days \<Rightarrow> filter day_isOffDay days | None \<Rightarrow> [])
     @ (case next_year of Some days \<Rightarrow> filter day_isOffDay days | None \<Rightarrow> [])"

text \<open>
  \<^verbatim>\<open>get_next_holiday\<close>; \<open>current_date\<close> is the clock formatted as \<^verbatim>\<open>YYYY-MM-DD\<close> and
  \<open>current_year\<close> is \<^verbatim>\<open>get_current_year()\<close>. The dates are compared as strings.
\<close>

definition hq_get_next_holiday ::
  "sources \<Rightarrow> hq_state \<Rightarrow> real \<Rightarrow> string \<Rightarrow> int \<Rightarrow>
     (query_error + next_holiday_info) \<times> hq_state" where
  "hq_get_next_holiday src st current_time current_date current_year =
     (let (holiday_data, st1) = hq_fetch_holiday_data src st current_time current_year;
          (next_year_data, st2) = hq_fetch_holiday_data src st1 current_time (current_year + 1);
          all_holidays = hq_all_holidays holiday_data next_year_data
      in case List.find (\<lambda>holiday. current_date < day_date holiday) all_holidays of
           None \<Rightarrow> (Inl NoFutureHoliday, st2)
         | Some next_holiday \<Rightarrow>
             (case strptime (day_date next_holiday) of
                None \<Rightarrow> (Inl QueryFailed, st2)
              | Some holiday_date \<Rightarrow>
                  (case strptime current_date of
                     None \<Rightarrow> (Inl QueryFailed, st2)
                   | Some current_date_obj \<Rightarrow>
                       (Inr \<lparr>nh_name = day_name next_holiday, nh_date = day_date next_holiday,
                             nh_days_until = toordinal holiday_date - toordinal current_date_obj,
                             nh_note = day_note next_holiday,
                             nh_weekday_name_en = None\<rparr>, st2))))"

text \<open>
  A feed for the examples: 2024 from the first location, 2025 from the second, and a
  feed that is down.
\<close>

definition feed_2024 :: holiday_data where
  "feed_2024 =
     [\<lparr>day_date = ''2024-01-01'', day_isOffDay = True, day_name = ''New Year'', day_note = []\<rparr>,
      \<lparr>day_date = ''2024-10-06'', day_isOffDay = True, day_name = ''National Day'', day_note = []\<rparr>,
      \<lparr>day_date = ''2024-10-12'', day_isOffDay = False, day_name = ''National Day'', day_note = []\<rparr>,
      \<lparr>day_date = ''2024-12-31'', day_isOffDay = True, day_name = [], day_note = []\<rparr>]"

definition feed_2025 :: holiday_data where
  "feed_2025 =
     [\<lparr>day_date = ''2025-01-01'', day_isOffDay = True, day_name = ''New Year'', day_note = []\<rparr>]"

definition feed :: sources where
  "feed = \<lparr>primary = (\<lambda>y. if y = 2024 then Some feed_2024 else None),
           backup = (\<lambda>y. if y = 2025 then Some feed_2025 else None)\<rparr>"

definition offline :: sources where
  "offline = \<lparr>primary = (\<lambda>y. None), backup = (\<lambda>y. None)\<rparr>"

definition hq_empty :: hq_state where
  "hq_empty = \<lparr>holiday_cache = Map.empty, cache_expiry = Map.empty\<rparr>"

section \<open>Predicates used to state the properties\<close>

text \<open>
  A record that is an off day with a non-empty name, and a record whose date parses and
  lies after a given day; the date, name and note of a result item and of a record.
\<close>

definition is_named_off_day :: "day_record \<Rightarrow> bool" where
  "is_named_off_day day = (day_isOffDay day \<and> day_name day \<noteq> [])"


definition holiday_triple :: "holiday_item \<Rightarrow> string \<times> string \<times> string" where
  "holiday_triple h = (it_date h, it_name h, it_note h)"

definition day_triple :: "day_record \<Rightarrow> string \<times> string \<times> string" where
  "day_triple day = (day_date day, day_name day, day_note day)"

text \<open>
  A directory entry that holds a record not yet expired at the time of the load, and the
  key and entry of each such record of a directory, in directory order.
\<close>

definition is_live :: "real \<Rightarrow> 'v cache_file \<Rightarrow> bool" where
  "is_live now f = (case content f of Stored key entry \<Rightarrow> now < expires entry | _ \<Rightarrow> False)"

definition live_records :: "real \<Rightarrow> 'v cache_file list \<Rightarrow> (string \<times> 'v entry) list" where
  "live_records now files =
     concat (map (\<lambda>f. case content f of
                         Stored key entry \<Rightarrow> if now < expires entry then [(key, entry)] else []
                       | _ \<Rightarrow> []) files)"

section \<open>Properties of the in-memory cache\<close>

subsection \<open>Association lists as dicts\<close>










lemma delete_filter: "AList.delete key xs = filter (\<lambda>p. fst p \<noteq> key) xs"
  by (induction xs) auto

subsection \<open>\<^verbatim>\<open>delete\<close>\<close>

text \<open>
  Claim C10. For a key absent from the store, \<^verbatim>\<open>delete\<close> returns false and returns the
  store as it was: the entry mapping and the four counters are unchanged. For a present
  key it returns true, the key is gone afterwards, every other key maps to the entry it
  had (the remaining entries keep their order), the delete counter grows by one and
  hits, misses and sets (and the two settings) keep their values.
\<close>

theorem delete_frame:
  "(map_of (cache c) key = None \<longrightarrow> SimpleCache_delete c key = (False, c))
   \<and> (map_of (cache c) key \<noteq> None \<longrightarrow>
        fst (SimpleCache_delete c key) = True
        \<and> map_of (cache (snd (SimpleCache_delete c key))) key = None
        \<and> (\<forall>k'. k' \<noteq> key \<longrightarrow>
              map_of (cache (snd (SimpleCache_delete c key))) k' = map_of (cache c) k')
        \<and> cache (snd (SimpleCache_delete c key)) = filter (\<lambda>p. fst p \<noteq> key) (cache c)
        \<and> deletes (snd (SimpleCache_delete c key)) = deletes c + 1
        \<and> hits (snd (SimpleCache_delete c key)) = hits c
        \<and> misses (snd (SimpleCache_delete c key)) = misses c
        \<and> sets (snd (SimpleCache_delete c key)) = sets c
        \<and> default_ttl (snd (SimpleCache_delete c key)) = default_ttl c
        \<and> max_size (snd (SimpleCache_delete c key)) = max_size c)"
  by (auto simp: SimpleCache_delete_def delete_conv' delete_filter [symmetric])

theorem delete_frame_witness:
  "map_of (cache example_cache) ''z'' = None
   \<and> SimpleCache_delete example_cache ''z'' = (False, example_cache)
   \<and> map_of (cache example_cache) ''a'' \<noteq> None
   \<and> fst (SimpleCache_delete example_cache ''a'')
   \<and> map_of (cache (snd (SimpleCache_delete example_cache ''a''))) ''b'' = map_of (cache example_cache) ''b''
   \<and> deletes (snd (SimpleCache_delete example_cache ''a'')) = 1"
  using delete_frame [of example_cache "''z''"] delete_frame [of example_cache "''a''"]
  by (simp add: example_cache_def)

subsection \<open>\<^verbatim>\<open>get_stats\<close>\<close>

text \<open>
  Claim C9. \<^verbatim>\<open>get_stats\<close> never raises \<^verbatim>\<open>ZeroDivisionError\<close>: it always returns a
  statistics record, whose hit rate is 0 when hits and misses are both zero and
  hits / (hits + misses) as soon as one of them is positive.
\<close>

theorem get_stats_hit_rate:
  "\<exists>s. SimpleCache_get_stats str_len c now = Inr s
       \<and> hit_rate s = (if hits c = 0 \<and> misses c = 0 then 0
                       else real (hits c) / real (hits c + misses c))"
  by (simp add: SimpleCache_get_stats_def py_truediv_def Let_def)

theorem get_stats_hit_rate_witness:
  "SimpleCache_get_stats (\<lambda>n. n) (example_cache\<lparr>hits := 3, misses := 1\<rparr>) 0 \<noteq> Inl ZeroDivisionError
   \<and> SimpleCache_get_stats (\<lambda>n. n) example_cache 0 \<noteq> Inl ZeroDivisionError
   \<and> map_sum id hit_rate (SimpleCache_get_stats (\<lambda>n. n) (example_cache\<lparr>hits := 3, misses := 1\<rparr>) 0)
         = Inr (3 / 4)
   \<and> map_sum id hit_rate (SimpleCache_get_stats (\<lambda>n. n) example_cache 0) = Inr 0"
  using get_stats_hit_rate [of "\<lambda>n. n" "example_cache\<lparr>hits := 3, misses := 1\<rparr>" 0]
        get_stats_hit_rate [of "\<lambda>n. n" example_cache 0]
  by (auto simp: example_cache_def)

subsection \<open>\<^verbatim>\<open>get\<close> and \<^verbatim>\<open>set\<close>\<close>

lemma get_hit:
  assumes "map_of (cache c) key = Some e" "now < expires e"
  shows "SimpleCache_get c key now =
          (Some (e_value e),
           c\<lparr>hits := hits c + 1, cache := AList.update key (e\<lparr>last_accessed := now\<rparr>) (cache c)\<rparr>)"
  using assms by (simp add: SimpleCache_get_def)

lemma get_expired:
  assumes "map_of (cache c) key = Some e" "expires e \<le> now"
  shows "SimpleCache_get c key now =
          (None, c\<lparr>cache := AList.delete key (cache c), deletes := deletes c + 1,
                   misses := misses c + 1\<rparr>)"
  using assms by (simp add: SimpleCache_get_def)

lemma get_absent:
  assumes "map_of (cache c) key = None"
  shows "SimpleCache_get c key now = (None, c\<lparr>misses := misses c + 1\<rparr>)"
  using assms by (simp add: SimpleCache_get_def)

lemma map_fst_update_present:
  "map_of xs k = Some e \<Longrightarrow> map fst (AList.update k v xs) = map fst xs"
  by (induction xs) (auto split: if_splits)

lemma set_lookup:
  "map_of (cache (SimpleCache_set c key v ttl now)) key =
     Some \<lparr>e_value = v,
           expires = now + real_of_int (case ttl of None \<Rightarrow> default_ttl c | Some t \<Rightarrow> t),
           created = now, last_accessed = now, access_count = 0\<rparr>"
  by (simp add: SimpleCache_set_def Let_def update_conv')

lemma evict_counters:
  "hits (SimpleCache_evict_oldest c) = hits c"
  "misses (SimpleCache_evict_oldest c) = misses c"
  "sets (SimpleCache_evict_oldest c) = sets c"
  "max_size (SimpleCache_evict_oldest c) = max_size c"
  "default_ttl (SimpleCache_evict_oldest c) = default_ttl c"
  by (simp_all add: SimpleCache_evict_oldest_def Let_def split: list.splits)

lemma set_counters:
  "hits (SimpleCache_set c key v ttl now) = hits c"
  "misses (SimpleCache_set c key v ttl now) = misses c"
  "sets (SimpleCache_set c key v ttl now) = sets c + 1"
  "max_size (SimpleCache_set c key v ttl now) = max_size c"
  "default_ttl (SimpleCache_set c key v ttl now) = default_ttl c"
  by (simp_all add: SimpleCache_set_def Let_def evict_counters)

text \<open>
  Claim C5. After \<^verbatim>\<open>set(k, v, ttl)\<close> at time \<open>now\<close> with a positive \<open>ttl\<close>, a
  \<^verbatim>\<open>get(k)\<close> at a time before \<open>now + ttl\<close> returns \<open>v\<close>; a \<^verbatim>\<open>get(k)\<close> at or after
  \<open>now + ttl\<close> returns nothing, the miss counter is one more than it was, and the entry
  is gone.
\<close>

theorem set_then_get:
  assumes "0 < ttl"
  shows "(now' < now + real_of_int ttl \<longrightarrow>
            fst (SimpleCache_get (SimpleCache_set c k v (Some ttl) now) k now') = Some v)
       \<and> (now + real_of_int ttl \<le> now' \<longrightarrow>
            fst (SimpleCache_get (SimpleCache_set c k v (Some ttl) now) k now') = None
            \<and> misses (snd (SimpleCache_get (SimpleCache_set c k v (Some ttl) now) k now'))
                = misses c + 1
            \<and> map_of (cache (snd (SimpleCache_get (SimpleCache_set c k v (Some ttl) now) k now'))) k
                = None)"
proof (intro conjI impI)
  let ?c = "SimpleCache_set c k v (Some ttl) now"
  let ?e = "\<lparr>e_value = v, expires = now + real_of_int ttl, created = now,
              last_accessed = now, access_count = 0\<rparr>"
  have look: "map_of (cache ?c) k = Some ?e"
    using set_lookup [of c k v "Some ttl" now] by simp
  {
    assume "now' < now + real_of_int ttl"
    then have "now' < expires ?e" by simp
    from get_hit [OF look this] show "fst (SimpleCache_get ?c k now') = Some v" by simp
  }
  {
    assume "now + real_of_int ttl \<le> now'"
    then have ex: "expires ?e \<le> now'" by simp
    from get_expired [OF look ex] show "fst (SimpleCache_get ?c k now') = None" by simp
    from get_expired [OF look ex] show "misses (snd (SimpleCache_get ?c k now')) = misses c + 1"
      by (simp add: set_counters)
    from get_expired [OF look ex]
    show "map_of (cache (snd (SimpleCache_get ?c k now'))) k = None"
      by (simp add: delete_conv')
  }
qed

theorem set_then_get_witness:
  "(0::int) < 60 \<and> (30::real) < 0 + real_of_int 60 \<and> (0::real) + real_of_int 60 \<le> 60
   \<and> fst (SimpleCache_get (SimpleCache_set example_cache ''k'' 5 (Some 60) 0) ''k'' 30) = Some 5
   \<and> fst (SimpleCache_get (SimpleCache_set example_cache ''k'' 5 (Some 60) 0) ''k'' 60) = None
   \<and> misses (snd (SimpleCache_get (SimpleCache_set example_cache ''k'' 5 (Some 60) 0) ''k'' 60)) = 1"
  using set_then_get [of 60 30 0 example_cache "''k''" 5]
        set_then_get [of 60 60 0 example_cache "''k''" 5]
  by (simp add: example_cache_def)

text \<open>
  Claim C4, as the code has it. On a hit (entry present, \<open>now < expires\<close>) \<^verbatim>\<open>get\<close>
  returns the value, stamps the entry's \<^verbatim>\<open>last_accessed\<close> with \<open>now\<close> and changes no
  other field of it (\<^verbatim>\<open>access_count\<close> keeps its value), leaves every other entry and the
  order of the keys alone, and increments the hit counter only. On a present entry with
  \<open>expires \<le> now\<close> it returns nothing, removes that entry only, and increments the miss
  and the delete counter. On an absent key it returns nothing and increments the miss
  counter only.
\<close>

theorem get_effects:
  "(\<forall>e. map_of (cache c) key = Some e \<and> now < expires e \<longrightarrow>
       fst (SimpleCache_get c key now) = Some (e_value e)
     \<and> map_of (cache (snd (SimpleCache_get c key now))) key = Some (e\<lparr>last_accessed := now\<rparr>)
     \<and> (\<forall>k'. k' \<noteq> key \<longrightarrow>
           map_of (cache (snd (SimpleCache_get c key now))) k' = map_of (cache c) k')
     \<and> map fst (cache (snd (SimpleCache_get c key now))) = map fst (cache c)
     \<and> hits (snd (SimpleCache_get c key now)) = hits c + 1
     \<and> misses (snd (SimpleCache_get c key now)) = misses c
     \<and> sets (snd (SimpleCache_get c key now)) = sets c
     \<and> deletes (snd (SimpleCache_get c key now)) = deletes c)
   \<and> (\<forall>e. map_of (cache c) key = Some e \<and> expires e \<le> now \<longrightarrow>
       fst (SimpleCache_get c key now) = None
     \<and> map_of (cache (snd (SimpleCache_get c key now))) key = None
     \<and> (\<forall>k'. k' \<noteq> key \<longrightarrow>
           map_of (cache (snd (SimpleCache_get c key now))) k' = map_of (cache c) k')
     \<and> hits (snd (SimpleCache_get c key now)) = hits c
     \<and> misses (snd (SimpleCache_get c key now)) = misses c + 1
     \<and> sets (snd (SimpleCache_get c key now)) = sets c
     \<and> deletes (snd (SimpleCache_get c key now)) = deletes c + 1)
   \<and> (map_of (cache c) key = None \<longrightarrow>
       SimpleCache_get c key now = (None, c\<lparr>misses := misses c + 1\<rparr>))"
  by (auto simp: get_hit get_expired get_absent update_conv' delete_conv' map_fst_update_present)

lemma evict_empty: "cache c = [] \<Longrightarrow> SimpleCache_evict_oldest c = c"
  by (simp add: SimpleCache_evict_oldest_def)

lemma evict_nonempty:
  "cache c \<noteq> [] \<Longrightarrow>
   SimpleCache_evict_oldest c =
     c\<lparr>cache := AList.delete (fst (oldest (hd (cache c)) (tl (cache c)))) (cache c),
       deletes := deletes c + 1\<rparr>"
  by (cases "cache c") (simp_all add: SimpleCache_evict_oldest_def Let_def)










lemma evict_distinct:
  "distinct (map fst (cache c)) \<Longrightarrow> distinct (map fst (cache (SimpleCache_evict_oldest c)))"
  by (cases "cache c = []") (simp_all add: evict_empty evict_nonempty distinct_delete)

lemma set_distinct:
  "distinct (map fst (cache c)) \<Longrightarrow> distinct (map fst (cache (SimpleCache_set c key v ttl now)))"
  by (simp add: SimpleCache_set_def Let_def distinct_update evict_distinct)

lemma run_sets_distinct:
  "distinct (map fst (cache c)) \<Longrightarrow> distinct (map fst (cache (run_sets c ops)))"
proof (induction ops arbitrary: c)
  case Nil then show ?case by simp
next
  case (Cons op ops)
  obtain key v ttl now where op: "op = (key, v, ttl, now)" by (cases op) auto
  from Cons.IH [OF set_distinct [OF Cons.prems]] show ?case by (simp add: op)
qed


text \<open>
  The hit at time 5 on key \<open>a\<close> of the example store returns the value 7 and leaves
  \<^verbatim>\<open>access_count\<close> at 0: it is not incremented.
\<close>

theorem get_access_count_counterexample:
  "fst (SimpleCache_get example_cache ''a'' 5) = Some 7
   \<and> map_option access_count (map_of (cache example_cache) ''a'') = Some 0
   \<and> map_option access_count
        (map_of (cache (snd (SimpleCache_get example_cache ''a'' 5))) ''a'') = Some 0"
  by (simp add: SimpleCache_get_def example_cache_def)

theorem get_effects_witness:
  "map_of (cache example_cache) ''a''
     = Some \<lparr>e_value = 7, expires = 10, created = 0, last_accessed = 3, access_count = 0\<rparr>
   \<and> fst (SimpleCache_get example_cache ''a'' 5) = Some 7
   \<and> map_of (cache (snd (SimpleCache_get example_cache ''a'' 5))) ''a''
     = Some \<lparr>e_value = 7, expires = 10, created = 0, last_accessed = 5, access_count = 0\<rparr>
   \<and> hits (snd (SimpleCache_get example_cache ''a'' 5)) = 1
   \<and> fst (SimpleCache_get example_cache ''a'' 10) = None
   \<and> map_of (cache (snd (SimpleCache_get example_cache ''a'' 10))) ''a'' = None
   \<and> misses (snd (SimpleCache_get example_cache ''a'' 10)) = 1
   \<and> deletes (snd (SimpleCache_get example_cache ''a'' 10)) = 1
   \<and> map_of (cache example_cache) ''z'' = None
   \<and> misses (snd (SimpleCache_get example_cache ''z'' 5)) = 1"
  using get_effects [of example_cache "''a''" 5] get_effects [of example_cache "''a''" 10]
        get_effects [of example_cache "''z''" 5]
  by (simp add: example_cache_def)

subsection \<open>The size bound\<close>




section \<open>Properties of the disk-backed cache\<close>

lemma load_file_live:
  "content f = Stored key entry \<Longrightarrow> now < expires entry \<Longrightarrow>
   load_file now f (c, d) = Inr (AList.update key entry c, d)"
  by (simp add: load_file_def)

lemma load_file_dead:
  "\<not> is_live now f \<Longrightarrow> unlink_ok f \<Longrightarrow>
   load_file now f (c, d) = Inr (c, filter (\<lambda>g. path g \<noteq> path f) d)"
  by (auto simp: load_file_def is_live_def unlink_def split: file_content.splits)

lemma load_file_stuck:
  "\<not> is_live now f \<Longrightarrow> \<not> unlink_ok f \<Longrightarrow> load_file now f (c, d) = Inl OSError"
  by (auto simp: load_file_def is_live_def unlink_def split: file_content.splits)

lemma load_file_live_ok:
  "is_live now f \<Longrightarrow> \<exists>key entry. content f = Stored key entry \<and> now < expires entry
      \<and> load_file now f (c, d) = Inr (AList.update key entry c, d)"
  by (auto simp: load_file_def is_live_def split: file_content.splits)

lemma load_files_raises_iff:
  "load_files now files (c, d) = Inl OSError
     \<longleftrightarrow> (\<exists>f \<in> set files. \<not> is_live now f \<and> \<not> unlink_ok f)"
proof (induction files arbitrary: c d)
  case Nil then show ?case by simp
next
  case (Cons f files)
  show ?case
  proof (cases "is_live now f")
    case True
    from load_file_live_ok [OF this, of c d] obtain key entry where
      "load_file now f (c, d) = Inr (AList.update key entry c, d)" by blast
    with True Cons.IH show ?thesis by simp
  next
    case False
    show ?thesis
    proof (cases "unlink_ok f")
      case True
      with False Cons.IH show ?thesis by (simp add: load_file_dead)
    next
      case u: False
      with False show ?thesis by (auto simp: load_file_stuck)
    qed
  qed
qed

lemma load_files_error_kind: "load_files now files st = Inl err \<Longrightarrow> err = OSError"
proof (induction files arbitrary: st)
  case Nil then show ?case by simp
next
  case (Cons f files)
  obtain c d where st: "st = (c, d)" by (cases st) auto
  show ?case
  proof (cases "load_file now f (c, d)")
    case (Inl e)
    then have "e = OSError"
      by (auto simp: load_file_def unlink_def split: file_content.splits if_splits sum.splits)
    with Inl Cons.prems st show ?thesis by simp
  next
    case (Inr st')
    with Cons st show ?thesis by simp
  qed
qed

lemma load_files_ok:
  "\<forall>f \<in> set files. \<not> is_live now f \<longrightarrow> unlink_ok f \<Longrightarrow>
   load_files now files (c, d) =
     Inr (fold (\<lambda>(key, entry). AList.update key entry) (live_records now files) c,
          filter (\<lambda>g. \<forall>f \<in> set files. \<not> is_live now f \<longrightarrow> path g \<noteq> path f) d)"
proof (induction files arbitrary: c d)
  case Nil then show ?case by (simp add: live_records_def)
next
  case (Cons f files)
  show ?case
  proof (cases "is_live now f")
    case True
    from load_file_live_ok [OF this, of c d] obtain key entry where
      k: "content f = Stored key entry" "now < expires entry"
      and l: "load_file now f (c, d) = Inr (AList.update key entry c, d)" by blast
    have lr: "live_records now (f # files) = (key, entry) # live_records now files"
      using k by (simp add: live_records_def)
    from Cons.prems have "\<forall>f \<in> set files. \<not> is_live now f \<longrightarrow> unlink_ok f" by simp
    from Cons.IH [OF this, of "AList.update key entry c" d] l lr True
    show ?thesis by simp
  next
    case False
    with Cons.prems have u: "unlink_ok f" by simp
    have lr: "live_records now (f # files) = live_records now files"
      using False by (auto simp: live_records_def is_live_def split: file_content.splits)
    from Cons.prems have "\<forall>f \<in> set files. \<not> is_live now f \<longrightarrow> unlink_ok f" by simp
    from Cons.IH [OF this, of c "filter (\<lambda>g. path g \<noteq> path f) d"]
    show ?thesis using False u lr by (simp add: load_file_dead conj_commute)
  qed
qed

lemma map_of_fold_update:
  "map_of (fold (\<lambda>(key, entry). AList.update key entry) kvs c) = map_of (rev kvs @ c)"
proof (induction kvs arbitrary: c)
  case Nil then show ?case by simp
next
  case (Cons kv kvs)
  obtain k e where kv: "kv = (k, e)" by (cases kv) auto
  have "map_of (fold (\<lambda>(key, entry). AList.update key entry) kvs (AList.update k e c))
          = map_of (rev kvs @ AList.update k e c)" by (rule Cons.IH)
  then show ?case by (simp add: kv update_conv' map_add_def fun_eq_iff split: option.splits)
qed

lemma filter_dead_paths:
  assumes "distinct (map path disk)"
  shows "filter (\<lambda>g. \<forall>f \<in> set disk. \<not> is_live now f \<longrightarrow> path g \<noteq> path f) disk
           = filter (is_live now) disk"
proof (rule filter_cong [OF refl])
  fix g assume g: "g \<in> set disk"
  show "(\<forall>f \<in> set disk. \<not> is_live now f \<longrightarrow> path g \<noteq> path f) = is_live now g"
  proof
    assume "\<forall>f \<in> set disk. \<not> is_live now f \<longrightarrow> path g \<noteq> path f"
    with g show "is_live now g" by blast
  next
    assume l: "is_live now g"
    show "\<forall>f \<in> set disk. \<not> is_live now f \<longrightarrow> path g \<noteq> path f"
    proof (intro ballI impI)
      fix f assume f: "f \<in> set disk" "\<not> is_live now f"
      with l have "f \<noteq> g" by blast
      with assms f(1) g show "path g \<noteq> path f"
        by (metis distinct_map inj_on_def)
    qed
  qed
qed

lemma load_from_disk_raises_iff:
  "PersistentCache_load_from_disk c disk now = Inl OSError
     \<longleftrightarrow> (\<exists>f \<in> set disk. \<not> is_live now f \<and> \<not> unlink_ok f)"
proof -
  have "PersistentCache_load_from_disk c disk now = Inl OSError
          \<longleftrightarrow> load_files now disk (cache c, disk) = Inl OSError"
    by (auto simp: PersistentCache_load_from_disk_def split: sum.splits)
  then show ?thesis by (simp add: load_files_raises_iff)
qed

lemma load_from_disk_deletable:
  assumes "\<forall>f \<in> set disk. \<not> is_live now f \<longrightarrow> unlink_ok f" and "distinct (map path disk)"
  shows "\<exists>c'. PersistentCache_load_from_disk c disk now = Inr (c', filter (is_live now) disk)
           \<and> map_of (cache c') = map_of (rev (live_records now disk) @ cache c)
           \<and> hits c' = hits c \<and> misses c' = misses c \<and> sets c' = sets c
           \<and> deletes c' = deletes c"
  using load_files_ok [OF assms(1), of "cache c" disk] filter_dead_paths [OF assms(2), of now]
  by (simp add: PersistentCache_load_from_disk_def map_of_fold_update)

text \<open>
  Claim C8. Construction is meant to load the live records, delete the expired, corrupt
  and unreadable ones and never to surface a load error. It does so as long as every
  deletion succeeds (\<open>load_from_disk_deletable\<close>). The \<^verbatim>\<open>unlink\<close> of the exception handler
  is itself unguarded: with an entry that can be neither read nor removed next to a live
  record, or with an expired record that cannot be removed, the \<^verbatim>\<open>OSError\<close> leaves
  \<^verbatim>\<open>_load_from_disk\<close> and the constructor, and no store is built.
\<close>

theorem load_from_disk_raises:
  "PersistentCache_init
     [\<lparr>path = ''1.cache'', content = Stored ''a'' live_entry, unlink_ok = True\<rparr>,
      \<lparr>path = ''5.cache'', content = Unreadable, unlink_ok = False\<rparr>] 3600 1000 50
     = Inl OSError
   \<and> PersistentCache_init
     [\<lparr>path = ''2.cache'', content = Stored ''b'' expired_entry, unlink_ok = False\<rparr>]
       3600 1000 50
     = Inl OSError"
  by (simp add: PersistentCache_init_def PersistentCache_load_from_disk_def load_file_def
        unlink_def live_entry_def expired_entry_def SimpleCache_init_def)

lemma load_example_disk:
  "map_sum id (\<lambda>(c, d). (map fst (cache c), map path d))
     (PersistentCache_init example_disk 3600 1000 50) = Inr ([''a''], [''1.cache''])"
  by (simp add: PersistentCache_init_def PersistentCache_load_from_disk_def load_file_def
        unlink_def live_entry_def expired_entry_def SimpleCache_init_def example_disk_def)

section \<open>Properties of the holiday queries\<close>

subsection \<open>Fetching a year\<close>



lemma server_fetch_unavailable:
  "hcache year = None \<Longrightarrow> download src year = None \<Longrightarrow>
   server_fetch_holiday_data src hcache year = (None, hcache)"
  by (simp add: server_fetch_holiday_data_def)

lemma hq_fetch_uncached:
  "download src year = None \<Longrightarrow> holiday_cache st year = None \<Longrightarrow>
   hq_fetch_holiday_data src st now year = (None, st)"
  by (auto simp: hq_fetch_holiday_data_def split: option.splits)



lemma download_offline:
  "primary src year = None \<Longrightarrow> backup src year = None \<Longrightarrow> download src year = None"
  by (simp add: download_def)

text \<open>
  Claim C2, as the code has it. When the current year is neither cached nor available
  from either location, \<^verbatim>\<open>next_holiday\<close> of the server returns the error "cannot obtain
  the holiday data" and leaves its cache as it was (it does not ask for the next year).
  When both years are neither cached nor available, \<^verbatim>\<open>get_next_holiday\<close> of the script
  returns the error "no future holiday found". Neither returns a holiday.
\<close>

theorem next_holiday_unavailable:
  "(hcache (d_year today) = None \<and> primary src (d_year today) = None
      \<and> backup src (d_year today) = None \<longrightarrow>
      server_next_holiday src hcache today = (Inl CannotFetchData, hcache))
   \<and> (holiday_cache st current_year = None \<and> holiday_cache st (current_year + 1) = None
      \<and> primary src current_year = None \<and> backup src current_year = None
      \<and> primary src (current_year + 1) = None \<and> backup src (current_year + 1) = None \<longrightarrow>
      hq_get_next_holiday src st current_time current_date current_year
        = (Inl NoFutureHoliday, st))"
  by (auto simp: server_next_holiday_def hq_get_next_holiday_def hq_all_holidays_def
        server_fetch_unavailable hq_fetch_uncached download_offline)

text \<open>
  With both locations down and nothing cached, the script's \<^verbatim>\<open>get_next_holiday\<close> answers
  "no future holiday found", not "cannot obtain the holiday data".
\<close>

theorem next_holiday_unavailable_counterexample:
  "fst (hq_get_next_holiday offline hq_empty 0 ''2024-12-30'' 2024) = Inl NoFutureHoliday
   \<and> fst (hq_get_next_holiday offline hq_empty 0 ''2024-12-30'' 2024) \<noteq> Inl CannotFetchData"
  by (simp add: hq_get_next_holiday_def hq_all_holidays_def hq_fetch_holiday_data_def download_def offline_def
        hq_empty_def)

theorem next_holiday_unavailable_witness:
  "Map.empty (d_year \<lparr>d_year = 2024, d_month = 12, d_day = 30\<rparr>) = (None :: holiday_data option)
   \<and> primary offline 2024 = None \<and> backup offline 2024 = None
   \<and> primary offline 2025 = None \<and> backup offline 2025 = None
   \<and> holiday_cache hq_empty 2024 = None \<and> holiday_cache hq_empty 2025 = None
   \<and> fst (server_next_holiday offline Map.empty \<lparr>d_year = 2024, d_month = 12, d_day = 30\<rparr>)
       = Inl CannotFetchData
   \<and> fst (hq_get_next_holiday offline hq_empty 0 ''2024-12-30'' 2024) = Inl NoFutureHoliday"
  using next_holiday_unavailable [of Map.empty "\<lparr>d_year = 2024, d_month = 12, d_day = 30\<rparr>"
          offline hq_empty 2024 0 "''2024-12-30''"]
  by (simp add: offline_def hq_empty_def)

subsection \<open>The lookup of a day\<close>









subsection \<open>The holidays of a year\<close>


text \<open>
  Claim C7, as the code has it. For a year whose data is available,
  \<^verbatim>\<open>current_year_holidays\<close> of the server returns exactly the records that are off days
  with a non-empty name, and \<^verbatim>\<open>get_current_year_holidays\<close> of the script exactly the
  records that are off days, whatever their name; each with the date, name and note of
  its record, in the order of the list, so by ascending date when the list is.
\<close>

theorem list_holidays_for_year:
  "(fst (server_fetch_holiday_data src hcache year) = Some days \<longrightarrow>
      (\<exists>r. fst (server_current_year_holidays src hcache year) = Inr r
         \<and> yh_year r = year
         \<and> map holiday_triple (yh_holidays r) = map day_triple (filter is_named_off_day days)
         \<and> yh_total_count r = length (filter is_named_off_day days)
         \<and> (sorted (map day_date days) \<longrightarrow> sorted (map it_date (yh_holidays r)))))
   \<and> (fst (hq_fetch_holiday_data src st current_time year) = Some days \<longrightarrow>
      (\<exists>r. fst (hq_get_current_year_holidays src st current_time year) = Inr r
         \<and> yh_year r = year
         \<and> map holiday_triple (yh_holidays r) = map day_triple (filter day_isOffDay days)
         \<and> yh_total_count r = length (filter day_isOffDay days)
         \<and> (sorted (map day_date days) \<longrightarrow> sorted (map it_date (yh_holidays r)))))"
proof (intro conjI impI)
  assume h1: "fst (server_fetch_holiday_data src hcache year) = Some days"
  then obtain hc where f: "server_fetch_holiday_data src hcache year = (Some days, hc)"
    by (cases "server_fetch_holiday_data src hcache year") auto
  have p: "(\<lambda>day. day_isOffDay day \<and> day_name day \<noteq> []) = is_named_off_day"
    by (simp add: is_named_off_day_def fun_eq_iff)
  have d: "it_date \<circ> server_holiday_item = day_date"
    by (simp add: server_holiday_item_def fun_eq_iff)
  have t: "holiday_triple (server_holiday_item x) = day_triple x" for x
    by (simp add: server_holiday_item_def holiday_triple_def day_triple_def)
  show "\<exists>r. fst (server_current_year_holidays src hcache year) = Inr r
         \<and> yh_year r = year
         \<and> map holiday_triple (yh_holidays r) = map day_triple (filter is_named_off_day days)
         \<and> yh_total_count r = length (filter is_named_off_day days)
         \<and> (sorted (map day_date days) \<longrightarrow> sorted (map it_date (yh_holidays r)))"
    using f by (simp add: server_current_year_holidays_def Let_def p d t sorted_filter)
next
  assume h1: "fst (hq_fetch_holiday_data src st current_time year) = Some days"
  then obtain st' where f: "hq_fetch_holiday_data src st current_time year = (Some days, st')"
    by (cases "hq_fetch_holiday_data src st current_time year") auto
  have d: "it_date \<circ> hq_holiday_item = day_date"
    by (simp add: hq_holiday_item_def fun_eq_iff)
  have t: "holiday_triple (hq_holiday_item x) = day_triple x" for x
    by (simp add: hq_holiday_item_def holiday_triple_def day_triple_def)
  show "\<exists>r. fst (hq_get_current_year_holidays src st current_time year) = Inr r
         \<and> yh_year r = year
         \<and> map holiday_triple (yh_holidays r) = map day_triple (filter day_isOffDay days)
         \<and> yh_total_count r = length (filter day_isOffDay days)
         \<and> (sorted (map day_date days) \<longrightarrow> sorted (map it_date (yh_holidays r)))"
    using f by (simp add: hq_get_current_year_holidays_def Let_def d t sorted_filter)
qed

text \<open>
  The script lists the off day 2024-12-31 of the example feed, whose name is empty.
\<close>

theorem list_holidays_for_year_counterexample:
  "map_sum id (\<lambda>r. map holiday_triple (yh_holidays r))
     (fst (hq_get_current_year_holidays feed hq_empty 0 2024))
   = Inr [(''2024-01-01'', ''New Year'', []), (''2024-10-06'', ''National Day'', []),
          (''2024-12-31'', [], [])]"
  by (simp add: hq_get_current_year_holidays_def hq_fetch_holiday_data_def download_def
        feed_def hq_empty_def feed_2024_def hq_holiday_item_def holiday_triple_def)

theorem list_holidays_for_year_witness:
  "fst (server_fetch_holiday_data feed Map.empty 2024) = Some feed_2024
   \<and> fst (hq_fetch_holiday_data feed hq_empty 0 2024) = Some feed_2024
   \<and> sorted (map day_date feed_2024)
   \<and> map_sum id (\<lambda>r. map holiday_triple (yh_holidays r))
        (fst (server_current_year_holidays feed Map.empty 2024))
      = Inr [(''2024-01-01'', ''New Year'', []), (''2024-10-06'', ''National Day'', [])]
   \<and> map_sum id (\<lambda>r. sorted (map it_date (yh_holidays r)))
        (fst (server_current_year_holidays feed Map.empty 2024)) = Inr True
   \<and> map_sum id (\<lambda>r. sorted (map it_date (yh_holidays r)))
        (fst (hq_get_current_year_holidays feed hq_empty 0 2024)) = Inr True"
proof -
  have f1: "fst (server_fetch_holiday_data feed Map.empty 2024) = Some feed_2024"
    by (simp add: server_fetch_holiday_data_def download_def feed_def)
  have f2: "fst (hq_fetch_holiday_data feed hq_empty 0 2024) = Some feed_2024"
    by (simp add: hq_fetch_holiday_data_def download_def feed_def hq_empty_def)
  have s: "sorted (map day_date feed_2024)"
    by (simp add: feed_2024_def)
  have fl: "map day_triple (filter is_named_off_day feed_2024)
      = [(''2024-01-01'', ''New Year'', []), (''2024-10-06'', ''National Day'', [])]"
    by (simp add: feed_2024_def is_named_off_day_def day_triple_def)
  from list_holidays_for_year [of feed Map.empty 2024 feed_2024 hq_empty 0] f1 f2 s fl
  show ?thesis by auto
qed

subsection \<open>The next holiday\<close>











end
